theory Spec2Isabelle
  imports Main "HOL-Library.AList"
begin

section \<open>Python values and strings\<close>

text \<open>
  Tool results, proposals and parameter sets are Python dictionaries with string keys.
  They are modelled as association lists (Python dictionaries keep insertion order) over
  a small universe of JSON-like values. Strings are byte strings: ASCII text is one
  \<open>char\<close> per character, and the non-ASCII banner of the agent loop is its UTF-8
  encoding.
\<close>

datatype pyval =
    PNone
  | PBool bool
  | PInt int
  | PStr string
  | PList "pyval list"
  | PDict "(string \<times> pyval) list"

type_synonym pydict = "(string \<times> pyval) list"

text \<open>Python truthiness (\<open>bool(v)\<close>).\<close>

fun truthy :: "pyval \<Rightarrow> bool" where
  "truthy PNone = False"
| "truthy (PBool b) = b"
| "truthy (PInt i) = (i \<noteq> 0)"
| "truthy (PStr s) = (s \<noteq> [])"
| "truthy (PList xs) = (xs \<noteq> [])"
| "truthy (PDict d) = (d \<noteq> [])"

text \<open>\<open>d.get(k)\<close> with the default \<open>None\<close>, and \<open>d.get(k, dflt)\<close>.\<close>

definition dict_get :: "pydict \<Rightarrow> string \<Rightarrow> pyval" where
  "dict_get d k = (case map_of d k of None \<Rightarrow> PNone | Some v \<Rightarrow> v)"

definition dict_get_default :: "pydict \<Rightarrow> string \<Rightarrow> pyval \<Rightarrow> pyval" where
  "dict_get_default d k dflt = (case map_of d k of None \<Rightarrow> dflt | Some v \<Rightarrow> v)"

text \<open>Decimal rendering of integers, as \<open>str(n)\<close> and \<open>f"{n}"\<close> produce it.\<close>

fun show_nat :: "nat \<Rightarrow> string" where
  "show_nat n =
     (if n < 10 then [''0123456789'' ! n]
      else show_nat (n div 10) @ [''0123456789'' ! (n mod 10)])"

declare show_nat.simps [simp del]

definition show_int :: "int \<Rightarrow> string" where
  "show_int i = (if i < 0 then ''-'' @ show_nat (nat (- i)) else show_nat (nat i))"

text \<open>The apostrophe, which cannot end a string literal.\<close>

definition apos :: string where
  "apos = [CHR 0x27]"

section \<open>Discrepancy detection in \<open>QueryGmail.run\<close> (tools/gmail.py)\<close>

text \<open>
  The listing branch of \<open>QueryGmail.run\<close> retrieves at most \<open>max_results\<close> messages and
  reads the service's \<open>resultSizeEstimate\<close>. The calls to the Gmail service are external;
  the model starts where their answers are available: the query, the estimate
  \<open>total\<close> (a HOL constant, so the variable is called \<open>estimate\<close>), the summaries \<open>emails\<close> actually built and the list of distinct senders.
\<close>

definition gmail_summary :: "int \<Rightarrow> int \<Rightarrow> string" where
  "gmail_summary returned estimate =
     ''Found '' @ show_int returned @ '' emails'' @
     (if returned < estimate
      then '' (showing '' @ show_int returned @ '' of '' @ show_int estimate @
           '' total matching emails)''
      else '' total'')"

definition discrepancy_warning :: "int \<Rightarrow> int \<Rightarrow> pyval" where
  "discrepancy_warning returned estimate =
     (if returned > 0 \<and> estimate > returned * 2
      then PStr (''Note: API reports '' @ show_int estimate @
                 '' total results but only '' @ show_int returned @ '' were retrieved. '' @
                 ''Gmail'' @ apos @ ''s API estimate may be inflated. '' @
                 ''For accurate counts, verify in Gmail'' @ apos @ ''s web UI.'')
      else PNone)"

definition query_gmail_result ::
  "string \<Rightarrow> int \<Rightarrow> pyval list \<Rightarrow> pyval list \<Rightarrow> pydict" where
  "query_gmail_result query estimate emails unique_senders =
     (let returned = int (length emails) in
      [(''ok'', PBool True),
       (''query'', PStr query),
       (''total_results'', PInt estimate),
       (''returned'', PInt returned),
       (''summary'', PStr (gmail_summary returned estimate)),
       (''unique_senders'', PList unique_senders),
       (''discrepancy_warning'', discrepancy_warning returned estimate),
       (''emails'', PList emails)])"

section \<open>The agent state, the working memory and the loop (agent/state.py, memory.py, agent.py)\<close>

text \<open>
  \<open>AgentState\<close> is a dataclass. The fields \<open>done\<close> and \<open>context\<close> are called
  \<open>done_flag\<close> and \<open>context_data\<close> here, because the source's names are Isar keywords.
\<close>

record AgentState =
  goal :: string
  history :: "string list"
  results :: "pyval list"
  context_data :: pydict
  step :: int
  max_steps :: "int option"
  done_flag :: bool

definition is_complete :: "AgentState \<Rightarrow> bool" where
  "is_complete st =
     (if done_flag st then True
      else if (case max_steps st of None \<Rightarrow> False | Some m \<Rightarrow> step st \<ge> m) then True
      else False)"

definition add_history :: "AgentState \<Rightarrow> string \<Rightarrow> AgentState" where
  "add_history st entry = st\<lparr>history := history st @ [entry]\<rparr>"

definition add_result :: "AgentState \<Rightarrow> pyval \<Rightarrow> AgentState" where
  "add_result st result = st\<lparr>results := results st @ [result]\<rparr>"

text \<open>\<open>Memory\<close>: a list of text entries; \<open>recent n\<close> is the slice \<open>items[-n:]\<close>.\<close>

record Memory =
  items :: "string list"

definition memory_add :: "Memory \<Rightarrow> string \<Rightarrow> Memory" where
  "memory_add m text = m\<lparr>items := items m @ [text]\<rparr>"

definition recent :: "Memory \<Rightarrow> int \<Rightarrow> string list" where
  "recent m n =
     (let len = int (length (items m));
          start = (if - n < 0 then max (len - n) 0 else min (- n) len)
      in drop (nat start) (items m))"

fun join :: "string \<Rightarrow> string list \<Rightarrow> string" where
  "join sep [] = []"
| "join sep [x] = x"
| "join sep (x # y # ys) = x @ sep @ join sep (y # ys)"

definition build_context :: "Memory \<Rightarrow> int \<Rightarrow> string" where
  "build_context m max_items = join [CHR 0x0A] (recent m max_items)"

text \<open>
  A tool is called as \<open>tool.run(**args)\<close> inside a \<open>try\<close>. The call either raises (the
  text \<open>str(exc)\<close> of the exception is kept, \<open>Inl\<close>) or returns a value (\<open>Inr\<close>); a
  \<open>TypeError\<close> from unpacking ill-formed arguments is one of the exceptions. Tools are
  deterministic in their arguments and do not touch the agent state.

  A planner offers \<open>plan\<close> and possibly \<open>plan_with_tools\<close>; both return the proposal,
  by the \<open>Planner\<close> protocol a dictionary with the keys \<open>name\<close> (a string) and
  \<open>args\<close>. A planner is a function of the state and the context it is shown; since
  the step counter differs at every call of one run, this covers planners that answer
  differently at each call.
\<close>

type_synonym tool = "pyval \<Rightarrow> string + pyval"

type_synonym tools = "string \<rightharpoonup> tool"

record Planner =
  plan :: "AgentState \<Rightarrow> string \<Rightarrow> pyval"
  plan_with_tools :: "(AgentState \<Rightarrow> string \<Rightarrow> tools \<Rightarrow> pyval) option"

text \<open>
  The exceptions that can leave \<open>run_agent\<close> (the first two) and the parameter
  extraction of the Google agent (the last two, raised by \<open>datetime\<close>).
\<close>

datatype pyexc = AttributeError | TypeError | ValueError | OverflowError

text \<open>
  \<open>str(v)\<close> as the f-strings apply it: a string is inserted as it is; for every other
  value \<open>str\<close> is Python's built-in \<open>repr\<close>, which is not code of this repository and
  is a parameter \<open>py_repr\<close> of the model.
\<close>

definition py_str :: "(pyval \<Rightarrow> string) \<Rightarrow> pyval \<Rightarrow> string" where
  "py_str py_repr v = (case v of PStr s \<Rightarrow> s | _ \<Rightarrow> py_repr v)"

text \<open>
  \<open>tools.get(name)\<close>: a list or a dictionary is unhashable and the lookup raises
  \<open>TypeError\<close>; any other key that is not a string is absent from a dictionary keyed
  by strings.
\<close>

definition tools_get :: "tools \<Rightarrow> pyval \<Rightarrow> pyexc + tool option" where
  "tools_get ts name =
     (case name of
        PStr s \<Rightarrow> Inr (ts s)
      | PList _ \<Rightarrow> Inl TypeError
      | PDict _ \<Rightarrow> Inl TypeError
      | _ \<Rightarrow> Inr None)"

text \<open>Lines 49 to 52: the call with the exception captured into a result.\<close>

definition run_tool :: "tool \<Rightarrow> pyval \<Rightarrow> pyval" where
  "run_tool t args = (case t args of Inl exc \<Rightarrow> PDict [(''error'', PStr exc)] | Inr r \<Rightarrow> r)"

text \<open>\<open>isinstance(result, dict) and result.get("discrepancy_warning")\<close>.\<close>

definition has_discrepancy :: "pyval \<Rightarrow> bool" where
  "has_discrepancy result =
     (case result of PDict d \<Rightarrow> truthy (dict_get d ''discrepancy_warning'') | _ \<Rightarrow> False)"

text \<open>\<open>getattr(result, "get", None) and result.get("done")\<close>: only a dictionary has \<open>get\<close>.\<close>

definition requests_done :: "pyval \<Rightarrow> bool" where
  "requests_done result =
     (case result of PDict d \<Rightarrow> truthy (dict_get d ''done'') | _ \<Rightarrow> False)"

definition warning_sign :: string where
  "warning_sign = [CHR 0xE2, CHR 0x9A, CHR 0xA0, CHR 0xEF, CHR 0xB8, CHR 0x8F]"

definition banner :: string where
  "banner = warning_sign @ warning_sign @ warning_sign @ '' IMPORTANT DISCREPANCY '' @
            warning_sign @ warning_sign @ warning_sign"

definition memory_entry :: "(pyval \<Rightarrow> string) \<Rightarrow> pyval \<Rightarrow> pyval \<Rightarrow> string" where
  "memory_entry py_repr name result =
     (let plain = ''Tool '' @ py_str py_repr name @ '' result: '' @ py_str py_repr result in
      if has_discrepancy result
      then banner @ [CHR 0x0A] @
           py_str py_repr (case result of PDict d \<Rightarrow> dict_get d ''discrepancy_warning'' | _ \<Rightarrow> PNone) @
           [CHR 0x0A] @ plain
      else plain)"

text \<open>The proposal the planner is asked for (lines 30 to 35).\<close>

definition propose :: "Planner \<Rightarrow> tools \<Rightarrow> AgentState \<Rightarrow> string \<Rightarrow> pyval" where
  "propose planner ts st ctx =
     (case plan_with_tools planner of
        Some pw \<Rightarrow> pw st ctx ts
      | None \<Rightarrow> plan planner st ctx)"

text \<open>
  Lines 37 to 69: what one pass does with the proposal. \<open>Inl\<close> is an exception that
  leaves \<open>run_agent\<close> (a proposal that is no dictionary has no \<open>get\<close>; an unhashable
  name cannot be looked up); \<open>Inr\<close> is the state and the memory at the end of the pass.
\<close>

definition act ::
  "(pyval \<Rightarrow> string) \<Rightarrow> tools \<Rightarrow> AgentState \<Rightarrow> Memory \<Rightarrow> pyval \<Rightarrow> pyexc + AgentState \<times> Memory" where
  "act py_repr ts st memory proposal =
     (case proposal of
        PDict p \<Rightarrow>
          (let name = dict_get p ''name'';
               args = dict_get_default p ''args'' (PDict []);
               reason = dict_get p ''reason'';
               st2 = add_history st (''Step '' @ show_int (step st) @ '': planner proposed '' @
                       py_str py_repr name @ '' ('' @ py_str py_repr reason @ '')'')
           in case tools_get ts name of
                Inl exc \<Rightarrow> Inl exc
              | Inr None \<Rightarrow>
                  Inr (add_history st2 (''No tool named '' @ apos @ py_str py_repr name @ apos @
                         '' registered. Skipping.''), memory)
              | Inr (Some t) \<Rightarrow>
                  (let result = run_tool t args;
                       st3 = add_result st2 (PDict [(''tool'', name), (''result'', result)]);
                       memory' = memory_add memory (memory_entry py_repr name result)
                   in Inr (if requests_done result then st3\<lparr>done_flag := True\<rparr> else st3,
                           memory')))
      | _ \<Rightarrow> Inl AttributeError)"

text \<open>One pass through the body of the \<open>while\<close> loop (lines 29 to 69).\<close>

definition loop_body ::
  "(pyval \<Rightarrow> string) \<Rightarrow> tools \<Rightarrow> Planner \<Rightarrow> AgentState \<times> Memory \<Rightarrow> pyexc + AgentState \<times> Memory" where
  "loop_body py_repr ts planner sm =
     (let st1 = (fst sm)\<lparr>step := step (fst sm) + 1\<rparr>;
          memory = snd sm;
          ctx = build_context memory 10;
          proposal = propose planner ts st1 ctx
      in act py_repr ts st1 memory proposal)"

text \<open>
  The loop itself may run forever (no step limit and no tool that asks to stop), so it
  is a partial function: \<open>None\<close> is a run that does not return, \<open>Some (Inl exc)\<close> a
  run that raises, \<open>Some (Inr (state, memory))\<close> a run that returns the final state.
\<close>

partial_function (option) run_agent ::
  "(pyval \<Rightarrow> string) \<Rightarrow> tools \<Rightarrow> Planner \<Rightarrow> AgentState \<times> Memory
     \<Rightarrow> (pyexc + AgentState \<times> Memory) option" where
  "run_agent py_repr ts planner sm =
     (if is_complete (fst sm) then Some (Inr sm)
      else case loop_body py_repr ts planner sm of
             Inl exc \<Rightarrow> Some (Inl exc)
           | Inr sm' \<Rightarrow> run_agent py_repr ts planner sm')"

text \<open>The first \<open>k\<close> passes through the loop body, whatever the termination test says.\<close>

fun passes ::
  "(pyval \<Rightarrow> string) \<Rightarrow> tools \<Rightarrow> Planner \<Rightarrow> nat \<Rightarrow> AgentState \<times> Memory \<Rightarrow> pyexc + AgentState \<times> Memory" where
  "passes py_repr ts planner 0 sm = Inr sm"
| "passes py_repr ts planner (Suc k) sm =
     (case loop_body py_repr ts planner sm of
        Inl exc \<Rightarrow> Inl exc
      | Inr sm' \<Rightarrow> passes py_repr ts planner k sm')"

section \<open>The dispatcher \<open>GoogleAgentToolkit.execute\<close> (agents/google_agent.py)\<close>

text \<open>
  The toolkit looks the tool up by name; an absent tool and an exception of the tool
  both become a failure dictionary. Tool objects are truthy, so \<open>if not tool\<close> is the
  test for an absent tool.
\<close>

definition execute :: "tools \<Rightarrow> string \<Rightarrow> pyval \<Rightarrow> pyval" where
  "execute ts tool_name kwargs =
     (case ts tool_name of
        None \<Rightarrow>
          PDict [(''ok'', PBool False),
                 (''error'', PStr (''Tool '' @ apos @ tool_name @ apos @ '' not found''))]
      | Some t \<Rightarrow>
          (case t kwargs of
             Inr result \<Rightarrow> result
           | Inl e \<Rightarrow>
               PDict [(''ok'', PBool False),
                      (''error'', PStr (''Failed to execute '' @ tool_name @ '': '' @ e))]))"

text \<open>
  The tools of tools/base.py: the base class \<open>Tool\<close>, whose \<open>run\<close> raises
  \<open>NotImplementedError()\<close> (an exception with the empty text), and \<open>NoopTool\<close>.
\<close>

definition Tool_run :: tool where
  "Tool_run args = Inl []"

definition NoopTool_run :: tool where
  "NoopTool_run args =
     (case args of
        PDict _ \<Rightarrow> Inr (PDict [(''done'', PBool True), (''message'', PStr ''No action taken'')])
      | _ \<Rightarrow> Inl ''argument after ** must be a mapping'')"

section \<open>The planner \<open>ClaudePlanner._execute_plan\<close> (agent/planner.py)\<close>

text \<open>
  Python's \<open>str.strip\<close>, \<open>startswith\<close>, \<open>endswith\<close> and the operator \<open>in\<close> on strings.
  The whitespace of ASCII text is tab, line feed, vertical tab, form feed, carriage
  return, the separators 0x1C to 0x1F and the space.
\<close>

definition is_space :: "char \<Rightarrow> bool" where
  "is_space c = (let n = (of_char c :: nat) in (9 \<le> n \<and> n \<le> 13) \<or> (28 \<le> n \<and> n \<le> 32))"

definition strip :: "string \<Rightarrow> string" where
  "strip s = rev (dropWhile is_space (rev (dropWhile is_space s)))"

fun startswith :: "string \<Rightarrow> string \<Rightarrow> bool" where
  "startswith [] s = True"
| "startswith (p # ps) [] = False"
| "startswith (p # ps) (c # cs) = (p = c \<and> startswith ps cs)"

definition endswith :: "string \<Rightarrow> string \<Rightarrow> bool" where
  "endswith p s = startswith (rev p) (rev s)"

fun contains :: "string \<Rightarrow> string \<Rightarrow> bool" where
  "contains w [] = (w = [])"
| "contains w (c # cs) = (startswith w (c # cs) \<or> contains w cs)"

definition fence :: string where
  "fence = replicate 3 (CHR 0x60)"

definition clean_response :: "string \<Rightarrow> string" where
  "clean_response response =
     (let cleaned = strip response;
          cleaned = (if startswith (fence @ ''json'') cleaned then drop 7 cleaned
                     else if startswith fence cleaned then drop 3 cleaned
                     else cleaned);
          cleaned = (if endswith fence cleaned then take (length cleaned - 3) cleaned
                     else cleaned)
      in strip cleaned)"

text \<open>
  \<open>key not in action\<close> and \<open>action[key] = value\<close> on whatever \<open>json.loads\<close> returned.
  Membership is key membership on a dictionary, substring on a string and element
  membership on a list, and raises on the other values; item assignment with a string
  key works on a dictionary only.
\<close>

definition py_in :: "string \<Rightarrow> pyval \<Rightarrow> string + bool" where
  "py_in k action =
     (case action of
        PDict d \<Rightarrow> Inr (map_of d k \<noteq> None)
      | PStr s \<Rightarrow> Inr (contains k s)
      | PList xs \<Rightarrow> Inr (List.member xs (PStr k))
      | _ \<Rightarrow> Inl ''argument is not iterable'')"

definition py_setitem :: "pyval \<Rightarrow> string \<Rightarrow> pyval \<Rightarrow> string + pyval" where
  "py_setitem action k v =
     (case action of
        PDict d \<Rightarrow> Inr (PDict (AList.update k v d))
      | _ \<Rightarrow> Inl ''object does not support item assignment'')"

definition ensure_key :: "string \<Rightarrow> pyval \<Rightarrow> pyval \<Rightarrow> string + pyval" where
  "ensure_key k v action =
     (case py_in k action of
        Inl exc \<Rightarrow> Inl exc
      | Inr True \<Rightarrow> Inr action
      | Inr False \<Rightarrow> py_setitem action k v)"

definition noop_proposal :: "string \<Rightarrow> pyval" where
  "noop_proposal reason =
     PDict [(''name'', PStr ''noop''), (''args'', PDict []), (''reason'', PStr reason)]"

text \<open>
  \<open>_execute_plan\<close>. The call of the Claude client is external: \<open>sent\<close> is its outcome,
  \<open>Inl\<close> the text of an exception it raised and \<open>Inr\<close> the response text.
  \<open>json.loads\<close> is the standard library's parser, a parameter: \<open>Inl\<close> is the text of
  its \<open>JSONDecodeError\<close>, \<open>Inr\<close> the parsed value.
\<close>

definition ensure_keys :: "pyval \<Rightarrow> string + pyval" where
  "ensure_keys action =
     (case ensure_key ''name'' (PStr ''noop'') action of
        Inl exc \<Rightarrow> Inl exc
      | Inr a1 \<Rightarrow>
          (case ensure_key ''args'' (PDict []) a1 of
             Inl exc \<Rightarrow> Inl exc
           | Inr a2 \<Rightarrow> ensure_key ''reason'' (PStr ''Claude response'') a2))"

definition execute_plan :: "(string \<Rightarrow> string + pyval) \<Rightarrow> string + string \<Rightarrow> pyval" where
  "execute_plan json_loads sent =
     (case sent of
        Inl exc \<Rightarrow> noop_proposal (''Planner error: '' @ exc)
      | Inr response \<Rightarrow>
          (case json_loads (clean_response response) of
             Inl e \<Rightarrow> noop_proposal (''Failed to parse Claude response: '' @ e)
           | Inr action \<Rightarrow>
               (case ensure_keys action of
                  Inl exc \<Rightarrow> noop_proposal (''Planner error: '' @ exc)
                | Inr a \<Rightarrow> a)))"

text \<open>
  \<open>ClaudePlanner\<close>: both methods build a prompt from the state and the context and hand
  it to \<open>_execute_plan\<close>. The prompt is determined by the state and the context (and the
  fixed tool table), so the external client is a function \<open>client\<close> of these two.
\<close>

definition ClaudePlanner ::
  "(string \<Rightarrow> string + pyval) \<Rightarrow> (AgentState \<Rightarrow> string \<Rightarrow> string + string) \<Rightarrow> Planner" where
  "ClaudePlanner json_loads client =
     \<lparr>plan = (\<lambda>st ctx. execute_plan json_loads (client st ctx)),
      plan_with_tools = Some (\<lambda>st ctx ts. execute_plan json_loads (client st ctx))\<rparr>"

text \<open>\<open>str.lower\<close> on ASCII text: the letters A to Z are mapped, every other byte is kept.\<close>

definition lower_char :: "char \<Rightarrow> char" where
  "lower_char c =
     (case map_of (zip ''ABCDEFGHIJKLMNOPQRSTUVWXYZ'' ''abcdefghijklmnopqrstuvwxyz'') c of
        Some l \<Rightarrow> l
      | None \<Rightarrow> c)"

definition lower :: "string \<Rightarrow> string" where
  "lower s = map lower_char s"

text \<open>\<open>MockPlanner\<close>, the rule-based planner of agent/planner.py.\<close>

definition MockPlanner :: Planner where
  "MockPlanner =
     \<lparr>plan = (\<lambda>st ctx.
         if contains (lower (goal st)) (lower ctx)
         then PDict [(''name'', PStr ''noop''), (''args'', PDict []),
                     (''reason'', PStr ''goal appears in context'')]
         else PDict [(''name'', PStr ''describe_state''),
                     (''args'', PDict [(''brief'', PBool True)]),
                     (''reason'', PStr ''default summarization'')]),
      plan_with_tools = Some (\<lambda>st ctx ts.
         if contains (lower (goal st)) (lower ctx)
         then PDict [(''name'', PStr ''noop''), (''args'', PDict []),
                     (''reason'', PStr ''goal appears in context'')]
         else PDict [(''name'', PStr ''noop''), (''args'', PDict []),
                     (''reason'', PStr ''default mock action'')])\<rparr>"

section \<open>Notions used to state the properties of the loop\<close>

text \<open>
  The result that a pass dispatches for a proposal, if it dispatches one: the proposal
  is a dictionary and its name is registered.
\<close>

definition dispatched :: "tools \<Rightarrow> pyval \<Rightarrow> pyval option" where
  "dispatched ts proposal =
     (case proposal of
        PDict p \<Rightarrow>
          (case tools_get ts (dict_get p ''name'') of
             Inr (Some t) \<Rightarrow> Some (run_tool t (dict_get_default p ''args'' (PDict [])))
           | _ \<Rightarrow> None)
      | _ \<Rightarrow> None)"

text \<open>
  The \<open>Planner\<close> protocol: the proposal is a dictionary, and its name can be looked up
  (it is not a list or a dictionary; the protocol asks for a string).
\<close>

definition proposal_ok :: "pyval \<Rightarrow> bool" where
  "proposal_ok proposal =
     (case proposal of
        PDict p \<Rightarrow> (case dict_get p ''name'' of PList _ \<Rightarrow> False | PDict _ \<Rightarrow> False | _ \<Rightarrow> True)
      | _ \<Rightarrow> False)"

definition follows_protocol :: "Planner \<Rightarrow> tools \<Rightarrow> bool" where
  "follows_protocol planner ts = (\<forall>s c. proposal_ok (propose planner ts s c))"

text \<open>A planner that never signals completion: no result it gets dispatched asks to stop.\<close>

definition never_done :: "Planner \<Rightarrow> tools \<Rightarrow> bool" where
  "never_done planner ts =
     (\<forall>s c r. dispatched ts (propose planner ts s c) = Some r \<longrightarrow> \<not> requests_done r)"

text \<open>Concrete data for the examples: a no-operation tool that does not ask to stop.\<close>

definition idle_tool :: tool where
  "idle_tool args = Inr (PDict [(''message'', PStr ''No action taken'')])"

definition state0 :: AgentState where
  "state0 = \<lparr>goal = ''Describe the README contents'', history = [], results = [],
     context_data = [], step = 0, max_steps = Some 3, done_flag = False\<rparr>"

text \<open>
  A planning failure: the client raised, or its response does not parse as JSON, or the
  checks of the keys raised on the parsed value.
\<close>

definition planning_failed :: "(string \<Rightarrow> string + pyval) \<Rightarrow> string + string \<Rightarrow> bool" where
  "planning_failed json_loads sent =
     (case sent of
        Inl exc \<Rightarrow> True
      | Inr response \<Rightarrow>
          (case json_loads (clean_response response) of
             Inl e \<Rightarrow> True
           | Inr action \<Rightarrow> (case ensure_keys action of Inl exc \<Rightarrow> True | Inr a \<Rightarrow> False)))"

text \<open>The history line written for a proposal (line 41).\<close>

definition proposal_line :: "(pyval \<Rightarrow> string) \<Rightarrow> AgentState \<Rightarrow> pydict \<Rightarrow> string" where
  "proposal_line py_repr st p =
     ''Step '' @ show_int (step st) @ '': planner proposed '' @ py_str py_repr (dict_get p ''name'') @
     '' ('' @ py_str py_repr (dict_get p ''reason'') @ '')''"

text \<open>More concrete data for the examples.\<close>

definition mem0 :: Memory where "mem0 = \<lparr>items = []\<rparr>"

definition state1_noop :: AgentState where
  "state1_noop = \<lparr>goal = ''Describe the README contents'',
     history = [''Step 1: planner proposed noop (default mock action)''],
     results = [PDict [(''tool'', PStr ''noop''),
                       (''result'', PDict [(''done'', PBool True), (''message'', PStr ''No action taken'')])]],
     context_data = [], step = 1, max_steps = Some 3, done_flag = True\<rparr>"

definition failing_json :: "string \<Rightarrow> string + pyval" where
  "failing_json s = Inl ''Expecting value: line 1 column 1 (char 0)''"

definition prose_client :: "AgentState \<Rightarrow> string \<Rightarrow> string + string" where
  "prose_client st ctx = Inr ''I am sorry, I cannot help with that.''"

definition state50 :: AgentState where
  "state50 = \<lparr>goal = ''Describe the README contents'', history = [], results = [],
     context_data = [], step = 0, max_steps = Some 50, done_flag = False\<rparr>"

definition state50_end :: AgentState where
  "state50_end = \<lparr>goal = ''Describe the README contents'',
     history = [''Step 1: planner proposed noop (Failed to parse Claude response: Expecting value: line 1 column 1 (char 0))''],
     results = [PDict [(''tool'', PStr ''noop''),
                       (''result'', PDict [(''done'', PBool True), (''message'', PStr ''No action taken'')])]],
     context_data = [], step = 1, max_steps = Some 50, done_flag = True\<rparr>"

text \<open>
  The text that the memory entry shows for a flagged result: \<open>str\<close> of the value under
  \<open>discrepancy_warning\<close>.
\<close>

definition warning_text :: "(pyval \<Rightarrow> string) \<Rightarrow> pyval \<Rightarrow> string" where
  "warning_text py_repr result =
     py_str py_repr (case result of PDict d \<Rightarrow> dict_get d ''discrepancy_warning'' | _ \<Rightarrow> PNone)"

text \<open>
  Concrete data: a Gmail listing tool whose service reports 50 matches and returns one,
  and a planner that proposes it.
\<close>

definition gmail_tool :: tool where
  "gmail_tool args =
     Inr (PDict (query_gmail_result ''is:unread'' 50 [PDict [(''id'', PStr ''m1'')]] [PStr ''a@b.co'']))"

definition gmail_planner :: Planner where
  "gmail_planner =
     \<lparr>plan = (\<lambda>st ctx. PDict [(''name'', PStr ''query_gmail''),
                               (''args'', PDict [(''query'', PStr ''is:unread'')]),
                               (''reason'', PStr ''check mail'')]),
      plan_with_tools = None\<rparr>"

definition gmail_warning :: string where
  "gmail_warning = ''Note: API reports 50 total results but only 1 were retrieved. '' @
     ''Gmail'' @ apos @ ''s API estimate may be inflated. '' @
     ''For accurate counts, verify in Gmail'' @ apos @ ''s web UI.''"

definition state1_gmail :: AgentState where
  "state1_gmail = \<lparr>goal = ''Describe the README contents'',
     history = [''Step 1: planner proposed query_gmail (check mail)''],
     results = [PDict [(''tool'', PStr ''query_gmail''),
                       (''result'', PDict (query_gmail_result ''is:unread'' 50
                                      [PDict [(''id'', PStr ''m1'')]] [PStr ''a@b.co'']))]],
     context_data = [], step = 1, max_steps = Some 3, done_flag = False\<rparr>"

definition mem1_gmail :: Memory where
  "mem1_gmail = \<lparr>items = [banner @ [CHR 0x0A] @ gmail_warning @ [CHR 0x0A] @
                            ''Tool query_gmail result: <repr>'']\<rparr>"

text \<open>\<open>GoogleAgentToolkit.execute\<close> builds a failure result itself in these two cases.\<close>

definition execute_failed :: "tools \<Rightarrow> string \<Rightarrow> pyval \<Rightarrow> bool" where
  "execute_failed ts tool_name kwargs =
     (case ts tool_name of None \<Rightarrow> True
      | Some t \<Rightarrow> (case t kwargs of Inl e \<Rightarrow> True | Inr result \<Rightarrow> False))"

text \<open>
  Concrete data: a response that is valid JSON but no object, the JSON string
  "name args reason", and \<open>json.loads\<close> on it.
\<close>

definition quoted_response :: string where
  "quoted_response = [CHR 0x22] @ ''name args reason'' @ [CHR 0x22]"

definition quoted_client :: "AgentState \<Rightarrow> string \<Rightarrow> string + string" where
  "quoted_client st ctx = Inr quoted_response"

definition string_json :: "string \<Rightarrow> string + pyval" where
  "string_json s =
     (if s = quoted_response then Inr (PStr ''name args reason'')
      else Inl ''Expecting value: line 1 column 1 (char 0)'')"

section \<open>Regular expressions as the \<open>re\<close> module matches them\<close>























section \<open>Dates as the \<open>datetime\<close> module computes them\<close>



















section \<open>\<open>GoogleAgent._extract_parameters\<close> (agents/google_agent.py)\<close>











section \<open>Notions used to state the properties of the parameter extraction\<close>

















section \<open>Properties of the discrepancy detector\<close>

lemma discrepancy_warning_None_iff:
  "discrepancy_warning returned estimate = PNone \<longleftrightarrow> \<not> (returned > 0 \<and> estimate > 2 * returned)"
  by (auto simp: discrepancy_warning_def)

lemma discrepancy_warning_truthy_iff:
  "truthy (discrepancy_warning returned estimate) \<longleftrightarrow> (returned > 0 \<and> estimate > 2 * returned)"
  by (auto simp: discrepancy_warning_def)

text \<open>
  Claim C3. For a listing result built from \<open>returned\<close> retrieved items and the service's
  estimate \<open>total\<close>, a warning is present (the field is not \<open>None\<close>, and is a truthy
  string) if and only if \<open>returned > 0\<close> and \<open>total > 2 * returned\<close>. The check only
  annotates the result: the \<open>ok\<close> field is \<open>True\<close> and every other field of the result
  is the same whether or not the warning is raised.
\<close>

theorem C3_discrepancy_iff:
  "(dict_get (query_gmail_result query estimate emails senders) ''discrepancy_warning'' \<noteq> PNone)
     = (int (length emails) > 0 \<and> estimate > 2 * int (length emails))
   \<and> truthy (dict_get (query_gmail_result query estimate emails senders) ''discrepancy_warning'')
     = (int (length emails) > 0 \<and> estimate > 2 * int (length emails))
   \<and> dict_get (query_gmail_result query estimate emails senders) ''ok'' = PBool True
   \<and> AList.delete ''discrepancy_warning'' (query_gmail_result query estimate emails senders) =
         [(''ok'', PBool True), (''query'', PStr query), (''total_results'', PInt estimate),
          (''returned'', PInt (int (length emails))),
          (''summary'', PStr (gmail_summary (int (length emails)) estimate)),
          (''unique_senders'', PList senders), (''emails'', PList emails)]"
  by (simp add: query_gmail_result_def dict_get_def Let_def AList.delete_eq
        discrepancy_warning_None_iff discrepancy_warning_truthy_iff)

text \<open>The two scenarios of the specification: 5 of 50 is flagged, 30 of 40 is not.\<close>

lemma discrepancy_examples:
  "truthy (discrepancy_warning 5 50)" "discrepancy_warning 30 40 = PNone"
  by (simp_all add: discrepancy_warning_def)

section \<open>Properties of the agent loop\<close>

lemma act_ok:
  assumes "proposal_ok proposal"
  shows "\<exists>st' mem'. act py_repr ts st mem proposal = Inr (st', mem')"
  using assms
  by (auto simp: proposal_ok_def act_def tools_get_def Let_def
      split: pyval.splits option.splits sum.splits)

lemma act_fields:
  assumes "act py_repr ts st mem proposal = Inr (st', mem')"
  shows "step st' = step st" "max_steps st' = max_steps st" "goal st' = goal st"
    "done_flag st' = (done_flag st \<or> (\<exists>r. dispatched ts proposal = Some r \<and> requests_done r))"
  using assms
  by (auto simp: act_def dispatched_def add_history_def add_result_def Let_def
      split: pyval.splits option.splits sum.splits if_splits)

lemma loop_body_step:
  assumes wf: "follows_protocol planner ts" and nd: "never_done planner ts"
    and "\<not> done_flag st"
  shows "\<exists>st' mem'. loop_body py_repr ts planner (st, mem) = Inr (st', mem') \<and>
           step st' = step st + 1 \<and> max_steps st' = max_steps st \<and> \<not> done_flag st'"
proof -
  let ?st1 = "st\<lparr>step := step st + 1\<rparr>"
  let ?p = "propose planner ts ?st1 (build_context mem 10)"
  from wf have "proposal_ok ?p" by (simp add: follows_protocol_def)
  then obtain st' mem' where a: "act py_repr ts ?st1 mem ?p = Inr (st', mem')"
    using act_ok by blast
  from nd have "\<not> (\<exists>r. dispatched ts ?p = Some r \<and> requests_done r)"
    by (auto simp: never_done_def)
  with act_fields[OF a] assms(3)
  have "step st' = step st + 1" "max_steps st' = max_steps st" "\<not> done_flag st'"
    by simp_all
  moreover have "loop_body py_repr ts planner (st, mem) = Inr (st', mem')"
    using a by (simp add: loop_body_def Let_def)
  ultimately show ?thesis by blast
qed

lemma run_agent_bounded:
  assumes wf: "follows_protocol planner ts" and nd: "never_done planner ts"
  shows "max_steps st = Some n \<Longrightarrow> \<not> done_flag st \<Longrightarrow> step st \<le> n \<Longrightarrow> k = nat (n - step st) \<Longrightarrow>
    \<exists>st' mem'. run_agent py_repr ts planner (st, mem) = Some (Inr (st', mem')) \<and>
       passes py_repr ts planner k (st, mem) = Inr (st', mem') \<and>
       step st' = n \<and> \<not> done_flag st'"
proof (induction k arbitrary: st mem)
  case 0
  then have "step st = n" by simp
  with 0 have "is_complete st" by (simp add: is_complete_def)
  then have "run_agent py_repr ts planner (st, mem) = Some (Inr (st, mem))"
    by (subst run_agent.simps) simp
  with 0 \<open>step st = n\<close> show ?case by simp
next
  case (Suc k)
  then have lt: "step st < n" by simp
  with Suc.prems have nc: "\<not> is_complete st" by (simp add: is_complete_def)
  from loop_body_step[OF wf nd Suc.prems(2), of py_repr mem]
  obtain st1 mem1 where b: "loop_body py_repr ts planner (st, mem) = Inr (st1, mem1)"
    and s1: "step st1 = step st + 1" "max_steps st1 = max_steps st" "\<not> done_flag st1"
    by blast
  have "k = nat (n - step st1)" using Suc.prems s1 by simp
  from Suc.IH[OF _ s1(3) _ this, of mem1] s1 Suc.prems lt
  obtain st' mem' where r: "run_agent py_repr ts planner (st1, mem1) = Some (Inr (st', mem'))"
    "passes py_repr ts planner k (st1, mem1) = Inr (st', mem')" "step st' = n" "\<not> done_flag st'"
    by auto
  have "run_agent py_repr ts planner (st, mem) = run_agent py_repr ts planner (st1, mem1)"
    using nc b by (subst run_agent.simps) simp
  with r b show ?case by simp
qed

text \<open>
  Claim C4, as amended. Take a planner that follows the \<open>Planner\<close> protocol (every
  proposal is a dictionary whose name can be looked up) and never signals
  completion (no result dispatched for one of its proposals carries a truthy \<open>done\<close>),
  and an initial state with \<open>step = 0\<close>, \<open>done = False\<close> and \<open>max_steps = n\<close>,
  \<open>n \<ge> 0\<close>. Then \<open>run_agent\<close> returns, the state it returns is the one reached by
  exactly \<open>n\<close> passes through the loop body, and its step count is \<open>n\<close>.
\<close>

theorem C4_terminates_after_max_steps:
  assumes "step st = 0" and "max_steps st = Some n" and "0 \<le> n" and "\<not> done_flag st"
    and "follows_protocol planner ts" and "never_done planner ts"
  shows "\<exists>st' mem'. run_agent py_repr ts planner (st, mem) = Some (Inr (st', mem')) \<and>
           passes py_repr ts planner (nat n) (st, mem) = Inr (st', mem') \<and>
           step st' = n \<and> \<not> done_flag st'"
  using run_agent_bounded[OF assms(5,6) assms(2) assms(4), of "nat n" py_repr mem] assms(1,3)
  by simp

text \<open>
  The scenario of the specification: \<open>max_steps = 3\<close> and the mock planner, which always
  proposes \<open>noop\<close>, with a no-operation tool that does not ask to stop: three passes.
\<close>

theorem C4_witness:
  "step state0 = 0 \<and> max_steps state0 = Some 3 \<and> (0::int) \<le> 3 \<and> \<not> done_flag state0 \<and>
   follows_protocol MockPlanner [''noop'' \<mapsto> idle_tool] \<and>
   never_done MockPlanner [''noop'' \<mapsto> idle_tool] \<and>
   (\<exists>st' mem'. run_agent (\<lambda>v. ''<repr>'') [''noop'' \<mapsto> idle_tool] MockPlanner
                  (state0, \<lparr>items = []\<rparr>) = Some (Inr (st', mem')) \<and>
      passes (\<lambda>v. ''<repr>'') [''noop'' \<mapsto> idle_tool] MockPlanner 3
                  (state0, \<lparr>items = []\<rparr>) = Inr (st', mem') \<and>
      step st' = 3 \<and> \<not> done_flag st')"
proof -
  have h1: "step state0 = 0" "max_steps state0 = Some 3" "\<not> done_flag state0"
    by (simp_all add: state0_def)
  have h2: "follows_protocol MockPlanner [''noop'' \<mapsto> idle_tool]"
    by (simp add: follows_protocol_def proposal_ok_def propose_def MockPlanner_def dict_get_def)
  have h3: "never_done MockPlanner [''noop'' \<mapsto> idle_tool]"
    by (simp add: never_done_def dispatched_def propose_def MockPlanner_def dict_get_def
          dict_get_default_def tools_get_def run_tool_def idle_tool_def requests_done_def)
  from C4_terminates_after_max_steps[OF h1(1) h1(2) _ h1(3) h2 h3,
      of "\<lambda>v. ''<repr>''" "\<lparr>items = []\<rparr>"]
  show ?thesis using h1 h2 h3 by simp
qed

lemma is_complete_iff:
  "is_complete st = (done_flag st \<or> (\<exists>m. max_steps st = Some m \<and> step st \<ge> m))"
  by (auto simp: is_complete_def split: option.splits)

lemma act_dispatched:
  assumes "act py_repr ts st mem (PDict p) = Inr (st', mem')"
    and "dispatched ts (PDict p) = Some r"
  shows "results st' = results st @ [PDict [(''tool'', dict_get p ''name''), (''result'', r)]]"
    and "items mem' = items mem @ [memory_entry py_repr (dict_get p ''name'') r]"
    and "length (history st') = length (history st) + 1"
  using assms
  by (auto simp: act_def dispatched_def add_history_def add_result_def memory_add_def Let_def
      split: pyval.splits option.splits sum.splits if_splits)

lemma loop_body_act:
  "loop_body py_repr ts planner (st, mem) =
     act py_repr ts (st\<lparr>step := step st + 1\<rparr>) mem
       (propose planner ts (st\<lparr>step := step st + 1\<rparr>) (build_context mem 10))"
  by (simp add: loop_body_def Let_def)

text \<open>
  Claim C5. The loop is left when \<open>is_complete\<close> holds, that is when \<open>done\<close> is set or
  \<open>max_steps\<close> is set and reached by the step count. Over one pass of the loop body,
  \<open>done\<close> is true afterwards exactly if it was true before or the result dispatched in
  this pass asks for completion; \<open>max_steps\<close> is unchanged and the step count grows, so
  a complete state stays complete. When the dispatched result carries the \<open>done\<close>
  signal, the pass still appends the result and the memory entry, and the loop returns
  this state at its next test.
\<close>

theorem C5_done_condition:
  assumes "loop_body py_repr ts planner (st, mem) = Inr (st', mem')"
    and "proposal = propose planner ts (st\<lparr>step := step st + 1\<rparr>) (build_context mem 10)"
  shows "(is_complete st' = (done_flag st' \<or> (\<exists>m. max_steps st' = Some m \<and> step st' \<ge> m)))
       \<and> (done_flag st' = (done_flag st \<or> (\<exists>r. dispatched ts proposal = Some r \<and> requests_done r)))
       \<and> step st' = step st + 1 \<and> max_steps st' = max_steps st
       \<and> (is_complete st \<longrightarrow> is_complete st')
       \<and> (\<forall>p r. proposal = PDict p \<and> dispatched ts proposal = Some r \<and> requests_done r \<longrightarrow>
             results st' = results st @ [PDict [(''tool'', dict_get p ''name''), (''result'', r)]]
           \<and> items mem' = items mem @ [memory_entry py_repr (dict_get p ''name'') r]
           \<and> done_flag st'
           \<and> run_agent py_repr ts planner (st', mem') = Some (Inr (st', mem')))"
proof -
  let ?st1 = "st\<lparr>step := step st + 1\<rparr>"
  have a: "act py_repr ts ?st1 mem proposal = Inr (st', mem')"
    using assms by (simp add: loop_body_act)
  note f = act_fields[OF a]
  have d: "done_flag st' = (done_flag st \<or> (\<exists>r. dispatched ts proposal = Some r \<and> requests_done r))"
    using f(4) by simp
  have s: "step st' = step st + 1" "max_steps st' = max_steps st" using f by simp_all
  have m: "is_complete st \<longrightarrow> is_complete st'"
    using d s by (auto simp: is_complete_iff)
  have r: "\<forall>p r. proposal = PDict p \<and> dispatched ts proposal = Some r \<and> requests_done r \<longrightarrow>
             results st' = results st @ [PDict [(''tool'', dict_get p ''name''), (''result'', r)]]
           \<and> items mem' = items mem @ [memory_entry py_repr (dict_get p ''name'') r]
           \<and> done_flag st'
           \<and> run_agent py_repr ts planner (st', mem') = Some (Inr (st', mem'))"
  proof (intro allI impI, elim conjE)
    fix p r assume p: "proposal = PDict p" and dr: "dispatched ts proposal = Some r" and rd: "requests_done r"
    from a p have a': "act py_repr ts ?st1 mem (PDict p) = Inr (st', mem')" by simp
    from dr p have dr': "dispatched ts (PDict p) = Some r" by simp
    have df: "done_flag st'" using d dr rd by blast
    then have "is_complete st'" by (simp add: is_complete_def)
    then have "run_agent py_repr ts planner (st', mem') = Some (Inr (st', mem'))"
      by (subst run_agent.simps) simp
    with act_dispatched(1,2)[OF a' dr'] df
    show "results st' = results st @ [PDict [(''tool'', dict_get p ''name''), (''result'', r)]]
           \<and> items mem' = items mem @ [memory_entry py_repr (dict_get p ''name'') r]
           \<and> done_flag st'
           \<and> run_agent py_repr ts planner (st', mem') = Some (Inr (st', mem'))"
      by simp
  qed
  show ?thesis using d s m r by (simp add: is_complete_iff)
qed

lemma mock_first_pass:
  "loop_body (\<lambda>v. ''<repr>'') [''noop'' \<mapsto> NoopTool_run] MockPlanner (state0, mem0)
     = Inr (state1_noop, \<lparr>items = [''Tool noop result: <repr>'']\<rparr>)"
  by (simp add: loop_body_def act_def propose_def MockPlanner_def state0_def mem0_def state1_noop_def
        build_context_def recent_def lower_def dict_get_def dict_get_default_def tools_get_def
        run_tool_def NoopTool_run_def add_history_def add_result_def memory_add_def memory_entry_def
        has_discrepancy_def requests_done_def py_str_def show_int_def show_nat.simps Let_def)

theorem C5_witness:
  "loop_body (\<lambda>v. ''<repr>'') [''noop'' \<mapsto> NoopTool_run] MockPlanner (state0, mem0)
     = Inr (state1_noop, \<lparr>items = [''Tool noop result: <repr>'']\<rparr>)
   \<and> is_complete state1_noop \<and> done_flag state1_noop \<and> \<not> done_flag state0
   \<and> dispatched [''noop'' \<mapsto> NoopTool_run]
        (propose MockPlanner [''noop'' \<mapsto> NoopTool_run] (state0\<lparr>step := step state0 + 1\<rparr>) (build_context mem0 10))
      = Some (PDict [(''done'', PBool True), (''message'', PStr ''No action taken'')])
   \<and> run_agent (\<lambda>v. ''<repr>'') [''noop'' \<mapsto> NoopTool_run] MockPlanner
        (state1_noop, \<lparr>items = [''Tool noop result: <repr>'']\<rparr>)
      = Some (Inr (state1_noop, \<lparr>items = [''Tool noop result: <repr>'']\<rparr>))"
proof -
  have d: "dispatched [''noop'' \<mapsto> NoopTool_run]
        (propose MockPlanner [''noop'' \<mapsto> NoopTool_run] (state0\<lparr>step := step state0 + 1\<rparr>) (build_context mem0 10))
      = Some (PDict [(''done'', PBool True), (''message'', PStr ''No action taken'')])"
    by (simp add: dispatched_def propose_def MockPlanner_def dict_get_def dict_get_default_def
          tools_get_def run_tool_def NoopTool_run_def)
  have p: "propose MockPlanner [''noop'' \<mapsto> NoopTool_run] (state0\<lparr>step := step state0 + 1\<rparr>) (build_context mem0 10)
       = PDict [(''name'', PStr ''noop''), (''args'', PDict []), (''reason'', PStr ''default mock action'')]"
    by (simp add: propose_def MockPlanner_def state0_def mem0_def build_context_def recent_def lower_def)
  have rd: "requests_done (PDict [(''done'', PBool True), (''message'', PStr ''No action taken'')])"
    by (simp add: requests_done_def dict_get_def)
  have ra: "run_agent (\<lambda>v. ''<repr>'') [''noop'' \<mapsto> NoopTool_run] MockPlanner
        (state1_noop, \<lparr>items = [''Tool noop result: <repr>'']\<rparr>)
      = Some (Inr (state1_noop, \<lparr>items = [''Tool noop result: <repr>'']\<rparr>))"
    using C5_done_condition[OF mock_first_pass refl] d p rd by blast
  have "is_complete state1_noop" "done_flag state1_noop" "\<not> done_flag state0"
    by (simp_all add: is_complete_def state1_noop_def state0_def)
  with ra d mock_first_pass show ?thesis by blast
qed

lemma startswith_iff: "startswith p s = (\<exists>ss. s = p @ ss)"
  by (induction p s rule: startswith.induct) auto

lemma contains_iff: "contains w s = (\<exists>ps ss. s = ps @ w @ ss)"
proof (induction s)
  case Nil
  then show ?case by auto
next
  case (Cons c cs)
  show ?case
  proof
    assume "contains w (c # cs)"
    then consider "startswith w (c # cs)" | "contains w cs" by auto
    then show "\<exists>ps ss. c # cs = ps @ w @ ss"
    proof cases
      case 1
      then obtain ss where "c # cs = w @ ss" by (auto simp: startswith_iff)
      then have "c # cs = [] @ w @ ss" by simp
      then show ?thesis by blast
    next
      case 2
      with Cons obtain ps ss where "cs = ps @ w @ ss" by blast
      then have "c # cs = (c # ps) @ w @ ss" by simp
      then show ?thesis by blast
    qed
  next
    assume "\<exists>ps ss. c # cs = ps @ w @ ss"
    then obtain ps ss where e: "c # cs = ps @ w @ ss" by blast
    show "contains w (c # cs)"
    proof (cases ps)
      case Nil
      with e have "startswith w (c # cs)" by (auto simp: startswith_iff)
      then show ?thesis by simp
    next
      case (Cons a ps')
      with e have "cs = ps' @ w @ ss" by simp
      with Cons.IH have "contains w cs" by blast
      then show ?thesis by simp
    qed
  qed
qed

lemma noop_act:
  "act py_repr ts st mem (noop_proposal reason) =
     (let st2 = add_history st (''Step '' @ show_int (step st) @ '': planner proposed noop ('' @ reason @ '')'')
      in case ts ''noop'' of
           None \<Rightarrow> Inr (add_history st2 (''No tool named '' @ apos @ ''noop'' @ apos @ '' registered. Skipping.''), mem)
         | Some t \<Rightarrow>
             Inr (if requests_done (run_tool t (PDict []))
                  then (add_result st2 (PDict [(''tool'', PStr ''noop''), (''result'', run_tool t (PDict []))]))\<lparr>done_flag := True\<rparr>
                  else add_result st2 (PDict [(''tool'', PStr ''noop''), (''result'', run_tool t (PDict []))]),
                  memory_add mem (memory_entry py_repr (PStr ''noop'') (run_tool t (PDict [])))))"
  by (simp add: act_def noop_proposal_def dict_get_def dict_get_default_def tools_get_def py_str_def Let_def
      split: option.splits)

lemma planning_failed_noop:
  assumes "planning_failed json_loads sent"
  shows "\<exists>reason. execute_plan json_loads sent = noop_proposal reason \<and> reason \<noteq> [] \<and>
           (startswith ''Planner error: '' reason \<or> startswith ''Failed to parse Claude response: '' reason)"
  using assms
  by (auto simp: planning_failed_def execute_plan_def split: sum.splits)

lemma noop_pass:
  "\<exists>st' mem'.
     act py_repr ts st mem (noop_proposal reason) = Inr (st', mem') \<and>
     (ts ''noop'' = None \<longrightarrow>
        done_flag st' = done_flag st \<and> results st' = results st \<and> mem' = mem \<and>
        step st' = step st \<and> max_steps st' = max_steps st) \<and>
     (ts ''noop'' = Some NoopTool_run \<longrightarrow>
        done_flag st' \<and> is_complete st' \<and>
        results st' = results st @ [PDict [(''tool'', PStr ''noop''),
           (''result'', PDict [(''done'', PBool True), (''message'', PStr ''No action taken'')])]] \<and>
        run_agent py_repr ts planner (st', mem') = Some (Inr (st', mem')))"
proof (cases "ts ''noop''")
  case None
  then show ?thesis by (simp add: noop_act add_history_def Let_def)
next
  case (Some t)
  obtain st' mem' where a: "act py_repr ts st mem (noop_proposal reason) = Inr (st', mem')"
    using Some by (simp add: noop_act Let_def)
  have "ts ''noop'' = Some NoopTool_run \<longrightarrow>
            done_flag st' \<and> is_complete st' \<and>
            results st' = results st @ [PDict [(''tool'', PStr ''noop''),
               (''result'', PDict [(''done'', PBool True), (''message'', PStr ''No action taken'')])]] \<and>
            run_agent py_repr ts planner (st', mem') = Some (Inr (st', mem'))"
  proof
    assume n: "ts ''noop'' = Some NoopTool_run"
    have rt: "run_tool NoopTool_run (PDict []) = PDict [(''done'', PBool True), (''message'', PStr ''No action taken'')]"
      by (simp add: run_tool_def NoopTool_run_def)
    have rd: "requests_done (PDict [(''done'', PBool True), (''message'', PStr ''No action taken'')])"
      by (simp add: requests_done_def dict_get_def)
    from a n rt rd have d: "done_flag st'" and re: "results st' = results st @ [PDict [(''tool'', PStr ''noop''),
               (''result'', PDict [(''done'', PBool True), (''message'', PStr ''No action taken'')])]]"
      by (auto simp: noop_act Let_def add_result_def add_history_def)
    from d have c: "is_complete st'" by (simp add: is_complete_def)
    then have "run_agent py_repr ts planner (st', mem') = Some (Inr (st', mem'))"
      by (subst run_agent.simps) simp
    with d c re show "done_flag st' \<and> is_complete st' \<and>
            results st' = results st @ [PDict [(''tool'', PStr ''noop''),
               (''result'', PDict [(''done'', PBool True), (''message'', PStr ''No action taken'')])]] \<and>
            run_agent py_repr ts planner (st', mem') = Some (Inr (st', mem'))" by simp
  qed
  with a Some show ?thesis by simp
qed

text \<open>
  Claim C7, as amended. When planning fails (the client raises, the response is not
  JSON, or the key checks raise), \<open>_execute_plan\<close> returns the proposal \<open>noop\<close> with a
  non-empty rationale that starts with "Planner error: " or "Failed to parse Claude
  response: ". The pass of the loop on that proposal does not raise. If no tool is
  registered under \<open>noop\<close>, the pass only logs and the loop goes on with \<open>done\<close>,
  results and memory unchanged; if \<open>NoopTool\<close> is registered, its result is recorded,
  \<open>done\<close> is set, and the loop returns at its next test.
\<close>

theorem C7_planning_failure_noop:
  assumes "planning_failed json_loads sent"
  shows "(\<exists>reason. execute_plan json_loads sent = noop_proposal reason \<and> reason \<noteq> [] \<and>
           (startswith ''Planner error: '' reason \<or>
            startswith ''Failed to parse Claude response: '' reason)) \<and>
         (\<exists>st' mem'.
           act py_repr ts st mem (execute_plan json_loads sent) = Inr (st', mem') \<and>
           (ts ''noop'' = None \<longrightarrow>
              done_flag st' = done_flag st \<and> results st' = results st \<and> mem' = mem \<and>
              step st' = step st \<and> max_steps st' = max_steps st) \<and>
           (ts ''noop'' = Some NoopTool_run \<longrightarrow>
              done_flag st' \<and> is_complete st' \<and>
              results st' = results st @ [PDict [(''tool'', PStr ''noop''),
                 (''result'', PDict [(''done'', PBool True), (''message'', PStr ''No action taken'')])]] \<and>
              run_agent py_repr ts planner (st', mem') = Some (Inr (st', mem'))))"
proof
  show "\<exists>reason. execute_plan json_loads sent = noop_proposal reason \<and> reason \<noteq> [] \<and>
           (startswith ''Planner error: '' reason \<or>
            startswith ''Failed to parse Claude response: '' reason)"
    by (rule planning_failed_noop[OF assms])
next
  from planning_failed_noop[OF assms] obtain reason where
    r: "execute_plan json_loads sent = noop_proposal reason" by blast
  show "\<exists>st' mem'.
           act py_repr ts st mem (execute_plan json_loads sent) = Inr (st', mem') \<and>
           (ts ''noop'' = None \<longrightarrow>
              done_flag st' = done_flag st \<and> results st' = results st \<and> mem' = mem \<and>
              step st' = step st \<and> max_steps st' = max_steps st) \<and>
           (ts ''noop'' = Some NoopTool_run \<longrightarrow>
              done_flag st' \<and> is_complete st' \<and>
              results st' = results st @ [PDict [(''tool'', PStr ''noop''),
                 (''result'', PDict [(''done'', PBool True), (''message'', PStr ''No action taken'')])]] \<and>
              run_agent py_repr ts planner (st', mem') = Some (Inr (st', mem')))"
    unfolding r by (rule noop_pass)
qed

lemma claude_first_pass:
  "loop_body (\<lambda>v. ''<repr>'') [''noop'' \<mapsto> NoopTool_run] (ClaudePlanner failing_json prose_client) (state50, mem0)
     = Inr (state50_end, \<lparr>items = [''Tool noop result: <repr>'']\<rparr>)"
  by (simp add: loop_body_def act_def propose_def ClaudePlanner_def execute_plan_def failing_json_def
        prose_client_def noop_proposal_def state50_def mem0_def state50_end_def
        build_context_def recent_def dict_get_def dict_get_default_def tools_get_def
        run_tool_def NoopTool_run_def add_history_def add_result_def memory_add_def memory_entry_def
        has_discrepancy_def requests_done_def py_str_def show_int_def show_nat.simps Let_def)

text \<open>
  The claim as stated fails with the tool table of main.py, where \<open>NoopTool\<close> is
  registered: a response that is not JSON makes the loop stop after one pass, at step 1
  of 50.
\<close>

theorem C7_counterexample:
  "planning_failed failing_json (prose_client state50 []) \<and>
   \<not> is_complete state50 \<and>
   run_agent (\<lambda>v. ''<repr>'') [''noop'' \<mapsto> NoopTool_run] (ClaudePlanner failing_json prose_client)
      (state50, mem0) = Some (Inr (state50_end, \<lparr>items = [''Tool noop result: <repr>'']\<rparr>)) \<and>
   step state50_end = 1 \<and> max_steps state50_end = Some 50 \<and> done_flag state50_end"
proof -
  have c: "is_complete state50_end" "\<not> is_complete state50"
    by (simp_all add: is_complete_def state50_end_def state50_def)
  have "run_agent (\<lambda>v. ''<repr>'') [''noop'' \<mapsto> NoopTool_run] (ClaudePlanner failing_json prose_client)
      (state50, mem0) =
     run_agent (\<lambda>v. ''<repr>'') [''noop'' \<mapsto> NoopTool_run] (ClaudePlanner failing_json prose_client)
      (state50_end, \<lparr>items = [''Tool noop result: <repr>'']\<rparr>)"
    using c(2) claude_first_pass by (subst run_agent.simps) simp
  also have "\<dots> = Some (Inr (state50_end, \<lparr>items = [''Tool noop result: <repr>'']\<rparr>))"
    using c(1) by (subst run_agent.simps) simp
  finally show ?thesis using c
    by (simp add: planning_failed_def failing_json_def prose_client_def state50_end_def)
qed

theorem C7_witness:
  "planning_failed failing_json (prose_client state50 []) \<and>
   (\<exists>reason. execute_plan failing_json (prose_client state50 []) = noop_proposal reason \<and> reason \<noteq> []) \<and>
   (\<exists>st' mem'. act (\<lambda>v. ''<repr>'') Map.empty state50 mem0
        (execute_plan failing_json (prose_client state50 [])) = Inr (st', mem') \<and>
      \<not> done_flag st' \<and> results st' = [] \<and> mem' = mem0)"
proof -
  have h: "planning_failed failing_json (prose_client state50 [])"
    by (simp add: planning_failed_def failing_json_def prose_client_def)
  from C7_planning_failure_noop[OF h, of "\<lambda>v. ''<repr>''" Map.empty state50 mem0 MockPlanner]
  show ?thesis using h by (auto simp: state50_def)
qed

lemma contains_mid: "contains w (ps @ w @ ss)"
  by (auto simp: contains_iff)

lemma contains_appendI1: "contains w a \<Longrightarrow> contains w (a @ b)"
  by (auto simp: contains_iff) (metis append.assoc)

lemma contains_appendI2: "contains w b \<Longrightarrow> contains w (a @ b)"
  by (auto simp: contains_iff) (metis append.assoc)

text \<open>
  Claim C6. For a tool name that is not registered, \<open>GoogleAgentToolkit.execute\<close> returns
  the failure dictionary whose error text is "Tool '<name>' not found"; and a pass of
  the agent loop on a proposal with that name does not raise, appends the proposal line
  and the line "No tool named '<name>' registered. Skipping." to the history, leaves
  results, memory and \<open>done\<close> as they are, and the loop goes on from that state.
\<close>

theorem C6_unregistered_tool:
  assumes "ts name = None"
  shows "execute ts name kwargs =
           PDict [(''ok'', PBool False),
                  (''error'', PStr (''Tool '' @ apos @ name @ apos @ '' not found''))]
       \<and> contains ''not found'' (''Tool '' @ apos @ name @ apos @ '' not found'')
       \<and> (\<forall>p. dict_get p ''name'' = PStr name \<longrightarrow>
             act py_repr ts st mem (PDict p) =
               Inr (st\<lparr>history := history st @
                       [proposal_line py_repr st p,
                        ''No tool named '' @ apos @ name @ apos @ '' registered. Skipping.'']\<rparr>, mem))
       \<and> (\<forall>p. \<not> is_complete st \<and>
              propose planner ts (st\<lparr>step := step st + 1\<rparr>) (build_context mem 10) = PDict p \<and>
              dict_get p ''name'' = PStr name \<longrightarrow>
             run_agent py_repr ts planner (st, mem) =
             run_agent py_repr ts planner
               (st\<lparr>step := step st + 1,
                   history := history st @
                       [proposal_line py_repr (st\<lparr>step := step st + 1\<rparr>) p,
                        ''No tool named '' @ apos @ name @ apos @ '' registered. Skipping.'']\<rparr>, mem))"
proof -
  have e: "execute ts name kwargs =
           PDict [(''ok'', PBool False),
                  (''error'', PStr (''Tool '' @ apos @ name @ apos @ '' not found''))]"
    using assms by (simp add: execute_def)
  have c: "contains ''not found'' (''Tool '' @ apos @ name @ apos @ '' not found'')"
    using contains_mid[of "''not found''" "''Tool '' @ apos @ name @ apos @ '' ''" "[]"] by simp
  have a: "\<And>st p. dict_get p ''name'' = PStr name \<Longrightarrow>
             act py_repr ts st mem (PDict p) =
               Inr (st\<lparr>history := history st @
                       [proposal_line py_repr st p,
                        ''No tool named '' @ apos @ name @ apos @ '' registered. Skipping.'']\<rparr>, mem)"
    using assms
    by (simp add: act_def tools_get_def add_history_def proposal_line_def py_str_def Let_def)
  have r: "\<And>p. \<not> is_complete st \<Longrightarrow>
              propose planner ts (st\<lparr>step := step st + 1\<rparr>) (build_context mem 10) = PDict p \<Longrightarrow>
              dict_get p ''name'' = PStr name \<Longrightarrow>
             run_agent py_repr ts planner (st, mem) =
             run_agent py_repr ts planner
               (st\<lparr>step := step st + 1,
                   history := history st @
                       [proposal_line py_repr (st\<lparr>step := step st + 1\<rparr>) p,
                        ''No tool named '' @ apos @ name @ apos @ '' registered. Skipping.'']\<rparr>, mem)"
  proof -
    fix p assume nc: "\<not> is_complete st"
      and pr: "propose planner ts (st\<lparr>step := step st + 1\<rparr>) (build_context mem 10) = PDict p"
      and nm: "dict_get p ''name'' = PStr name"
    have "loop_body py_repr ts planner (st, mem) =
            Inr (st\<lparr>step := step st + 1,
                   history := history st @
                       [proposal_line py_repr (st\<lparr>step := step st + 1\<rparr>) p,
                        ''No tool named '' @ apos @ name @ apos @ '' registered. Skipping.'']\<rparr>, mem)"
      using a[OF nm, of "st\<lparr>step := step st + 1\<rparr>"] pr by (simp add: loop_body_act)
    then show "run_agent py_repr ts planner (st, mem) =
             run_agent py_repr ts planner
               (st\<lparr>step := step st + 1,
                   history := history st @
                       [proposal_line py_repr (st\<lparr>step := step st + 1\<rparr>) p,
                        ''No tool named '' @ apos @ name @ apos @ '' registered. Skipping.'']\<rparr>, mem)"
      using nc by (subst run_agent.simps) simp
  qed
  show ?thesis using e c a r by blast
qed

theorem C6_witness:
  "Map.empty ''describe_state'' = (None :: tool option) \<and>
   execute Map.empty ''describe_state'' (PDict []) =
     PDict [(''ok'', PBool False), (''error'', PStr (''Tool '' @ apos @ ''describe_state'' @ apos @ '' not found''))] \<and>
   act (\<lambda>v. ''<repr>'') Map.empty state0 mem0
      (PDict [(''name'', PStr ''describe_state''), (''args'', PDict [(''brief'', PBool True)]),
              (''reason'', PStr ''default summarization'')]) =
     Inr (state0\<lparr>history :=
            [''Step 0: planner proposed describe_state (default summarization)'',
             ''No tool named '' @ apos @ ''describe_state'' @ apos @ '' registered. Skipping.'']\<rparr>, mem0)"
proof -
  have h: "Map.empty ''describe_state'' = (None :: tool option)" by simp
  have n: "dict_get [(''name'', PStr ''describe_state''), (''args'', PDict [(''brief'', PBool True)]),
              (''reason'', PStr ''default summarization'')] ''name'' = PStr ''describe_state''"
    by (simp add: dict_get_def)
  have l: "proposal_line (\<lambda>v. ''<repr>'') state0 [(''name'', PStr ''describe_state''), (''args'', PDict [(''brief'', PBool True)]),
              (''reason'', PStr ''default summarization'')] = ''Step 0: planner proposed describe_state (default summarization)''"
    by (simp add: proposal_line_def state0_def dict_get_def py_str_def show_int_def show_nat.simps)
  have s: "history state0 = []" by (simp add: state0_def)
  from C6_unregistered_tool[where ts = Map.empty and name = "''describe_state''" and kwargs = "PDict []"
      and py_repr = "\<lambda>v. ''<repr>''" and st = state0 and mem = mem0 and planner = MockPlanner, OF h] n l s
  show ?thesis by simp
qed

lemma join_snoc: "join sep (xs @ [e]) = (if xs = [] then e else join sep xs @ sep @ e)"
  by (induction sep xs rule: join.induct) auto

lemma recent_add:
  "recent (memory_add m e) 10 = drop (nat (int (length (items m)) - 9)) (items m) @ [e]"
proof -
  have "nat (max (int (length (items m)) + 1 - 10) 0) \<le> length (items m)" by auto
  then show ?thesis
    by (simp add: recent_def memory_add_def Let_def max_def)
qed

lemma context_ends_with_entry:
  "\<exists>pre. build_context (memory_add m e) 10 = pre @ e"
  by (simp add: build_context_def recent_add join_snoc)

lemma contains_context:
  assumes "contains w e"
  shows "contains w (build_context (memory_add m e) 10)"
proof -
  obtain pre where "build_context (memory_add m e) 10 = pre @ e"
    using context_ends_with_entry by blast
  with assms show ?thesis by (simp add: contains_appendI2)
qed

lemma entry_contains_warning:
  assumes "has_discrepancy r"
  shows "contains (warning_text py_repr r) (memory_entry py_repr name r)"
    and "contains banner (memory_entry py_repr name r)"
proof -
  have e: "memory_entry py_repr name r =
      banner @ [CHR 0x0A] @ warning_text py_repr r @ [CHR 0x0A] @
      ''Tool '' @ py_str py_repr name @ '' result: '' @ py_str py_repr r"
    using assms by (simp add: memory_entry_def warning_text_def Let_def)
  show "contains (warning_text py_repr r) (memory_entry py_repr name r)"
    unfolding e using contains_mid[of "warning_text py_repr r" "banner @ [CHR 0x0A]"] by simp
  show "contains banner (memory_entry py_repr name r)"
    unfolding e using contains_mid[of banner "[]"] by simp
qed

lemma act_dispatched_full:
  assumes "act py_repr ts st mem (PDict p) = Inr (st', mem')"
    and "dispatched ts (PDict p) = Some r"
  shows "results st' = results st @ [PDict [(''tool'', dict_get p ''name''), (''result'', r)]]"
    and "mem' = memory_add mem (memory_entry py_repr (dict_get p ''name'') r)"
    and "history st' = history st @ [proposal_line py_repr st p]"
  using assms
  by (auto simp: act_def dispatched_def add_history_def add_result_def proposal_line_def Let_def
      split: pyval.splits option.splits sum.splits if_splits)

text \<open>
  Claim C8, as amended. When a pass dispatches a result that carries a discrepancy
  warning, the memory context built for the next planning call contains the warning
  text and the banner "IMPORTANT DISCREPANCY" that precedes it; the next pass hands
  exactly this context to the planner. The flagged result is appended to the state's
  \<open>results\<close>; the history only receives the line for the proposal.
\<close>

theorem C8_warning_in_context:
  assumes "act py_repr ts st mem (PDict p) = Inr (st', mem')"
    and "dispatched ts (PDict p) = Some r"
    and "has_discrepancy r"
  shows "contains (warning_text py_repr r) (build_context mem' 10)
       \<and> contains banner (build_context mem' 10)
       \<and> (\<forall>d w. r = PDict d \<and> dict_get d ''discrepancy_warning'' = PStr w \<longrightarrow>
             contains w (build_context mem' 10))
       \<and> loop_body py_repr ts planner (st', mem') =
           act py_repr ts (st'\<lparr>step := step st' + 1\<rparr>) mem'
             (propose planner ts (st'\<lparr>step := step st' + 1\<rparr>) (build_context mem' 10))
       \<and> results st' = results st @ [PDict [(''tool'', dict_get p ''name''), (''result'', r)]]
       \<and> history st' = history st @ [proposal_line py_repr st p]"
proof -
  note f = act_dispatched_full[OF assms(1,2)]
  have c1: "contains (warning_text py_repr r) (build_context mem' 10)"
    unfolding f(2) by (rule contains_context) (rule entry_contains_warning(1)[OF assms(3)])
  have c2: "contains banner (build_context mem' 10)"
    unfolding f(2) by (rule contains_context) (rule entry_contains_warning(2)[OF assms(3)])
  have c3: "\<forall>d w. r = PDict d \<and> dict_get d ''discrepancy_warning'' = PStr w \<longrightarrow>
             contains w (build_context mem' 10)"
    using c1 by (auto simp: warning_text_def py_str_def)
  show ?thesis using c1 c2 c3 f(1,3) by (simp add: loop_body_act)
qed

lemma gmail_result_warning:
  "dict_get (query_gmail_result ''is:unread'' 50 [PDict [(''id'', PStr ''m1'')]] [PStr ''a@b.co''])
     ''discrepancy_warning'' = PStr gmail_warning"
  by (simp add: query_gmail_result_def dict_get_def discrepancy_warning_def gmail_warning_def
        show_int_def show_nat.simps)

lemma gmail_tool_result:
  "run_tool gmail_tool args =
     PDict (query_gmail_result ''is:unread'' 50 [PDict [(''id'', PStr ''m1'')]] [PStr ''a@b.co''])"
  by (simp add: run_tool_def gmail_tool_def)

lemma gmail_result_flagged:
  "has_discrepancy
     (PDict (query_gmail_result ''is:unread'' 50 [PDict [(''id'', PStr ''m1'')]] [PStr ''a@b.co'']))"
  by (simp add: has_discrepancy_def gmail_result_warning gmail_warning_def)

lemma gmail_result_not_done:
  "\<not> requests_done
     (PDict (query_gmail_result ''is:unread'' 50 [PDict [(''id'', PStr ''m1'')]] [PStr ''a@b.co'']))"
  by (simp add: requests_done_def dict_get_def query_gmail_result_def)

lemma gmail_memory_entry:
  "memory_entry (\<lambda>v. ''<repr>'') (PStr ''query_gmail'')
     (PDict (query_gmail_result ''is:unread'' 50 [PDict [(''id'', PStr ''m1'')]] [PStr ''a@b.co'']))
   = banner @ [CHR 0x0A] @ gmail_warning @ [CHR 0x0A] @ ''Tool query_gmail result: <repr>''"
  using gmail_result_flagged
  by (simp add: memory_entry_def gmail_result_warning py_str_def Let_def)

lemma gmail_first_pass:
  "loop_body (\<lambda>v. ''<repr>'') [''query_gmail'' \<mapsto> gmail_tool] gmail_planner (state0, mem0)
     = Inr (state1_gmail, mem1_gmail)"
  by (simp add: loop_body_def act_def propose_def gmail_planner_def state0_def mem0_def
        state1_gmail_def mem1_gmail_def gmail_tool_result gmail_result_not_done gmail_memory_entry
        dict_get_def dict_get_default_def tools_get_def
        add_history_def add_result_def memory_add_def
        py_str_def show_int_def show_nat.simps Let_def)

text \<open>
  The claim as stated fails on the history: after a pass with a flagged Gmail result,
  the only history line is the proposal line, which shows neither the banner nor the
  warning.
\<close>

theorem C8_counterexample:
  "loop_body (\<lambda>v. ''<repr>'') [''query_gmail'' \<mapsto> gmail_tool] gmail_planner (state0, mem0)
     = Inr (state1_gmail, mem1_gmail)
   \<and> dispatched [''query_gmail'' \<mapsto> gmail_tool]
        (propose gmail_planner [''query_gmail'' \<mapsto> gmail_tool] (state0\<lparr>step := 1\<rparr>) (build_context mem0 10))
      = Some (PDict (query_gmail_result ''is:unread'' 50 [PDict [(''id'', PStr ''m1'')]] [PStr ''a@b.co'']))
   \<and> has_discrepancy
        (PDict (query_gmail_result ''is:unread'' 50 [PDict [(''id'', PStr ''m1'')]] [PStr ''a@b.co'']))
   \<and> history state1_gmail = [''Step 1: planner proposed query_gmail (check mail)'']
   \<and> \<not> contains ''DISCREPANCY'' (''Step 1: planner proposed query_gmail (check mail)'')
   \<and> \<not> contains ''Note: API reports'' (''Step 1: planner proposed query_gmail (check mail)'')"
proof -
  have d: "dispatched [''query_gmail'' \<mapsto> gmail_tool]
        (propose gmail_planner [''query_gmail'' \<mapsto> gmail_tool] (state0\<lparr>step := 1\<rparr>) (build_context mem0 10))
      = Some (PDict (query_gmail_result ''is:unread'' 50 [PDict [(''id'', PStr ''m1'')]] [PStr ''a@b.co'']))"
    by (simp add: dispatched_def propose_def gmail_planner_def dict_get_def tools_get_def
          gmail_tool_result)
  have h: "history state1_gmail = [''Step 1: planner proposed query_gmail (check mail)'']"
    by (simp add: state1_gmail_def)
  have n: "\<not> contains ''DISCREPANCY'' (''Step 1: planner proposed query_gmail (check mail)'')"
    "\<not> contains ''Note: API reports'' (''Step 1: planner proposed query_gmail (check mail)'')"
    by simp_all
  show ?thesis using gmail_first_pass d gmail_result_flagged h n by blast
qed

theorem C8_witness:
  "act (\<lambda>v. ''<repr>'') [''query_gmail'' \<mapsto> gmail_tool] (state0\<lparr>step := 1\<rparr>) mem0
      (PDict [(''name'', PStr ''query_gmail''), (''args'', PDict [(''query'', PStr ''is:unread'')]),
              (''reason'', PStr ''check mail'')]) = Inr (state1_gmail, mem1_gmail)
   \<and> dispatched [''query_gmail'' \<mapsto> gmail_tool]
        (PDict [(''name'', PStr ''query_gmail''), (''args'', PDict [(''query'', PStr ''is:unread'')]),
              (''reason'', PStr ''check mail'')])
      = Some (PDict (query_gmail_result ''is:unread'' 50 [PDict [(''id'', PStr ''m1'')]] [PStr ''a@b.co'']))
   \<and> has_discrepancy
        (PDict (query_gmail_result ''is:unread'' 50 [PDict [(''id'', PStr ''m1'')]] [PStr ''a@b.co'']))
   \<and> contains gmail_warning (build_context mem1_gmail 10)
   \<and> contains banner (build_context mem1_gmail 10)"
proof -
  let ?p = "[(''name'', PStr ''query_gmail''), (''args'', PDict [(''query'', PStr ''is:unread'')]),
              (''reason'', PStr ''check mail'')]"
  let ?r = "PDict (query_gmail_result ''is:unread'' 50 [PDict [(''id'', PStr ''m1'')]] [PStr ''a@b.co''])"
  have a: "act (\<lambda>v. ''<repr>'') [''query_gmail'' \<mapsto> gmail_tool] (state0\<lparr>step := 1\<rparr>) mem0 (PDict ?p)
             = Inr (state1_gmail, mem1_gmail)"
    using gmail_first_pass
    by (simp add: loop_body_act propose_def gmail_planner_def state0_def)
  have d: "dispatched [''query_gmail'' \<mapsto> gmail_tool] (PDict ?p) = Some ?r"
    by (simp add: dispatched_def dict_get_def tools_get_def gmail_tool_result)
  have w: "warning_text (\<lambda>v. ''<repr>'') ?r = gmail_warning"
    by (simp add: warning_text_def gmail_result_warning py_str_def)
  from C8_warning_in_context[OF a d gmail_result_flagged, of MockPlanner] w
  have "contains gmail_warning (build_context mem1_gmail 10)" "contains banner (build_context mem1_gmail 10)"
    by simp_all
  with a d gmail_result_flagged show ?thesis by blast
qed

text \<open>
  Claim C9, as amended. Every failure result that \<open>GoogleAgentToolkit.execute\<close> builds
  itself (tool not found, or the tool raised) has \<open>ok = False\<close> and a non-empty error
  text. The agent loop captures \<open>str(exc)\<close> as it is, in a result without a success
  flag.
\<close>

theorem C9_execute_error_nonempty:
  assumes "execute_failed ts tool_name kwargs"
  shows "(\<exists>msg. execute ts tool_name kwargs = PDict [(''ok'', PBool False), (''error'', PStr msg)] \<and> msg \<noteq> [])
       \<and> (\<forall>t exc. t args = Inl exc \<longrightarrow> run_tool t args = PDict [(''error'', PStr exc)])"
  using assms
  by (auto simp: execute_failed_def execute_def run_tool_def split: option.splits sum.splits)

text \<open>
  The claim as stated fails in the agent loop: the base class \<open>Tool\<close> raises
  \<open>NotImplementedError()\<close>, whose text is empty, and the captured error text is empty.
\<close>

theorem C9_counterexample:
  "Tool_run (PDict []) = Inl [] \<and>
   run_tool Tool_run (PDict []) = PDict [(''error'', PStr [])] \<and>
   act (\<lambda>v. ''<repr>'') [''unnamed'' \<mapsto> Tool_run] (state0\<lparr>step := 1\<rparr>) mem0
      (PDict [(''name'', PStr ''unnamed''), (''args'', PDict []), (''reason'', PStr ''try it'')])
     = Inr (state0\<lparr>step := 1,
                    history := [''Step 1: planner proposed unnamed (try it)''],
                    results := [PDict [(''tool'', PStr ''unnamed''),
                                       (''result'', PDict [(''error'', PStr [])])]]\<rparr>,
            \<lparr>items = [''Tool unnamed result: <repr>'']\<rparr>)"
  by (simp add: Tool_run_def run_tool_def act_def state0_def mem0_def dict_get_def
        dict_get_default_def tools_get_def add_history_def add_result_def memory_add_def
        memory_entry_def has_discrepancy_def requests_done_def py_str_def show_int_def
        show_nat.simps Let_def)

theorem C9_witness:
  "execute_failed [''unnamed'' \<mapsto> Tool_run] ''unnamed'' (PDict []) \<and>
   execute [''unnamed'' \<mapsto> Tool_run] ''unnamed'' (PDict []) =
     PDict [(''ok'', PBool False), (''error'', PStr ''Failed to execute unnamed: '')] \<and>
   (\<exists>msg. execute [''unnamed'' \<mapsto> Tool_run] ''unnamed'' (PDict []) =
      PDict [(''ok'', PBool False), (''error'', PStr msg)] \<and> msg \<noteq> [])"
proof -
  have h: "execute_failed [''unnamed'' \<mapsto> Tool_run] ''unnamed'' (PDict [])"
    by (simp add: execute_failed_def Tool_run_def)
  have e: "execute [''unnamed'' \<mapsto> Tool_run] ''unnamed'' (PDict []) =
     PDict [(''ok'', PBool False), (''error'', PStr ''Failed to execute unnamed: '')]"
    by (simp add: execute_def Tool_run_def)
  from C9_execute_error_nonempty[OF h, where args = "PDict []"] h e show ?thesis by blast
qed

text \<open>
  The claim C4 as stated, for every planner, fails: \<open>ClaudePlanner\<close> returns whatever
  the response parses to once the three keys are "in" it, and for the JSON string
  "name args reason" that is a string. The planner never signals completion (nothing
  is dispatched), yet the first pass raises at \<open>proposal.get\<close> and the loop does not
  reach its three steps.
\<close>

lemma clean_quoted: "clean_response quoted_response = quoted_response"
  by code_simp

lemma string_plan:
  "execute_plan string_json (quoted_client st ctx) = PStr ''name args reason''"
  by (simp add: execute_plan_def string_json_def quoted_client_def clean_quoted
        ensure_keys_def ensure_key_def py_in_def)

theorem C4_counterexample:
  "never_done (ClaudePlanner string_json quoted_client) [''noop'' \<mapsto> NoopTool_run] \<and>
   step state0 = 0 \<and> max_steps state0 = Some 3 \<and> \<not> done_flag state0 \<and>
   run_agent (\<lambda>v. ''<repr>'') [''noop'' \<mapsto> NoopTool_run]
     (ClaudePlanner string_json quoted_client) (state0, mem0) = Some (Inl AttributeError)"
proof -
  have p: "\<And>s c. propose (ClaudePlanner string_json quoted_client) [''noop'' \<mapsto> NoopTool_run] s c
             = PStr ''name args reason''"
    by (simp add: propose_def ClaudePlanner_def string_plan)
  have n: "never_done (ClaudePlanner string_json quoted_client) [''noop'' \<mapsto> NoopTool_run]"
    by (simp add: never_done_def p dispatched_def)
  have s: "step state0 = 0" "max_steps state0 = Some 3" "\<not> done_flag state0"
    "\<not> is_complete state0"
    by (simp_all add: state0_def is_complete_def)
  have b: "loop_body (\<lambda>v. ''<repr>'') [''noop'' \<mapsto> NoopTool_run]
             (ClaudePlanner string_json quoted_client) (state0, mem0) = Inl AttributeError"
    by (simp add: loop_body_def Let_def p act_def)
  have "run_agent (\<lambda>v. ''<repr>'') [''noop'' \<mapsto> NoopTool_run]
     (ClaudePlanner string_json quoted_client) (state0, mem0) = Some (Inl AttributeError)"
    using s(4) b by (subst run_agent.simps) simp
  with n s show ?thesis by simp
qed

section \<open>The calendar: converting an ordinal to a date and back\<close>







section \<open>Properties of the parameter extraction\<close>















































end
